theory Spec2Isabelle
  imports Main "HOL-Library.Sublist"
begin

section \<open>Exceptions, text and bytes\<close>

text \<open>
  The exceptions that the code raises or lets through. \<open>UnicodeEncodeError\<close> and
  \<open>UnicodeDecodeError\<close> are subclasses of \<open>ValueError\<close>, so a handler
  \<open>except ValueError\<close> catches the three of them.
\<close>

datatype exn =
    ValueError string
  | KeyError string
  | IndexError
  | AttributeError
  | UnicodeEncodeError
  | UnicodeDecodeError

definition is_ValueError :: "exn \<Rightarrow> bool" where
  "is_ValueError e =
     (case e of
        ValueError m \<Rightarrow> True
      | UnicodeEncodeError \<Rightarrow> True
      | UnicodeDecodeError \<Rightarrow> True
      | _ \<Rightarrow> False)"

text \<open>
  The passwords and digests are the values that the code encodes to bytes and decodes
  from bytes. Such a \<open>str\<close> is the list of its code points, which may be any code
  point up to \<open>0x10FFFF\<close>, surrogates included; \<open>bytes\<close> are a HOL string, one
  character per byte. \<open>code_points\<close> reads a string of the other text values of the
  model (one character per code point, all below 256) as a \<open>str\<close>.
\<close>

type_synonym str = "nat list"
type_synonym bytes = string

definition code_points :: "string \<Rightarrow> str" where
  "code_points s = map of_char s"

text \<open>
  \<open>str.encode('utf-8')\<close>: one to four bytes per code point; a surrogate
  (\<open>0xD800\<close> to \<open>0xDFFF\<close>) cannot be encoded and raises \<open>UnicodeEncodeError\<close>.
\<close>

definition is_surrogate :: "nat \<Rightarrow> bool" where
  "is_surrogate c = (0xD800 \<le> c \<and> c \<le> 0xDFFF)"

definition utf8 :: "nat \<Rightarrow> bytes" where
  "utf8 c =
     (if c < 0x80 then [char_of c]
      else if c < 0x800 then [char_of (0xC0 + c div 0x40), char_of (0x80 + c mod 0x40)]
      else if c < 0x10000 then
        [char_of (0xE0 + c div 0x1000), char_of (0x80 + c div 0x40 mod 0x40),
         char_of (0x80 + c mod 0x40)]
      else
        [char_of (0xF0 + c div 0x40000), char_of (0x80 + c div 0x1000 mod 0x40),
         char_of (0x80 + c div 0x40 mod 0x40), char_of (0x80 + c mod 0x40)])"

definition encode :: "str \<Rightarrow> exn + bytes" where
  "encode s =
     (if list_ex is_surrogate s then Inl UnicodeEncodeError else Inr (concat (map utf8 s)))"

text \<open>
  \<open>bytes.decode('utf-8')\<close>: the strict decoder. A lead byte fixes the number of
  continuation bytes (\<open>0x80\<close> to \<open>0xBF\<close>); the second byte is narrowed after the leads
  \<open>0xE0\<close>, \<open>0xED\<close>, \<open>0xF0\<close> and \<open>0xF4\<close>, which excludes overlong forms, surrogates and
  code points above \<open>0x10FFFF\<close>. Anything else raises \<open>UnicodeDecodeError\<close>.
\<close>

definition continuation :: "nat \<Rightarrow> bool" where
  "continuation b = (0x80 \<le> b \<and> b \<le> 0xBF)"

definition second_byte :: "nat \<Rightarrow> nat \<Rightarrow> bool" where
  "second_byte lead b =
     (if lead = 0xE0 then 0xA0 \<le> b \<and> b \<le> 0xBF
      else if lead = 0xED then 0x80 \<le> b \<and> b \<le> 0x9F
      else if lead = 0xF0 then 0x90 \<le> b \<and> b \<le> 0xBF
      else if lead = 0xF4 then 0x80 \<le> b \<and> b \<le> 0x8F
      else continuation b)"

definition decoded :: "nat \<Rightarrow> exn + str \<Rightarrow> exn + str" where
  "decoded c rest = (case rest of Inl e \<Rightarrow> Inl e | Inr s \<Rightarrow> Inr (c # s))"

fun decode_bytes :: "nat list \<Rightarrow> exn + str" where
  "decode_bytes [] = Inr []"
| "decode_bytes (b # bs) =
     (if b < 0x80 then decoded b (decode_bytes bs)
      else if 0xC2 \<le> b \<and> b \<le> 0xDF then
        (case bs of
           b1 # r \<Rightarrow>
             if continuation b1
             then decoded ((b - 0xC0) * 0x40 + (b1 - 0x80)) (decode_bytes r)
             else Inl UnicodeDecodeError
         | _ \<Rightarrow> Inl UnicodeDecodeError)
      else if 0xE0 \<le> b \<and> b \<le> 0xEF then
        (case bs of
           b1 # b2 # r \<Rightarrow>
             if second_byte b b1 \<and> continuation b2
             then decoded ((b - 0xE0) * 0x1000 + (b1 - 0x80) * 0x40 + (b2 - 0x80))
                    (decode_bytes r)
             else Inl UnicodeDecodeError
         | _ \<Rightarrow> Inl UnicodeDecodeError)
      else if 0xF0 \<le> b \<and> b \<le> 0xF4 then
        (case bs of
           b1 # b2 # b3 # r \<Rightarrow>
             if second_byte b b1 \<and> continuation b2 \<and> continuation b3
             then decoded ((b - 0xF0) * 0x40000 + (b1 - 0x80) * 0x1000
                           + (b2 - 0x80) * 0x40 + (b3 - 0x80))
                    (decode_bytes r)
             else Inl UnicodeDecodeError
         | _ \<Rightarrow> Inl UnicodeDecodeError)
      else Inl UnicodeDecodeError)"

definition decode :: "bytes \<Rightarrow> exn + str" where
  "decode b = decode_bytes (map of_char b)"

section \<open>The user table\<close>

text \<open>
  A row of the table \<open>users\<close> (class \<open>User\<close> of user.py). The primary key \<open>id\<close> is the
  field \<open>user_id\<close>; the column \<open>password\<close> holds the stored digest, a \<open>str\<close>. A
  \<open>datetime\<close> is an integer count of clock ticks. The other text values are HOL
  strings, one character per code point.
\<close>

type_synonym timestamp = int

record user =
  user_id :: int
  name :: string
  email :: string
  age :: "int option"
  password :: str
  created_at :: timestamp
  updated_at :: timestamp
  is_active :: bool

text \<open>
  The table is the list of its rows in the order in which they were inserted. The
  primary key and the \<open>unique=True\<close> of the column \<open>email\<close> are the two constraints
  the database keeps.
\<close>

type_synonym table = "user list"

definition primary_key :: "table \<Rightarrow> bool" where
  "primary_key tbl = distinct (map user_id tbl)"

definition unique_email :: "table \<Rightarrow> bool" where
  "unique_email tbl = distinct (map email tbl)"

text \<open>\<open>User.query.get(user_id)\<close>, also \<open>User.find_by_id\<close>: the row with that key, active or not.\<close>

definition query_get :: "table \<Rightarrow> int \<Rightarrow> user option" where
  "query_get tbl uid = find (\<lambda>u. user_id u = uid) tbl"

text \<open>\<open>User.query.filter_by(email=email).first()\<close>, also \<open>User.find_by_email\<close>.\<close>

definition find_by_email :: "table \<Rightarrow> string \<Rightarrow> user option" where
  "find_by_email tbl e = find (\<lambda>u. email u = e) tbl"

text \<open>
  The constructor \<open>User(name, email, password, age)\<close> fills four attributes; the
  key, the two timestamps and the active flag are given by the insert.
\<close>

record new_user =
  nu_name :: string
  nu_email :: string
  nu_password :: str
  nu_age :: "int option"

definition User :: "string \<Rightarrow> string \<Rightarrow> str \<Rightarrow> int option \<Rightarrow> new_user" where
  "User n e p a = \<lparr>nu_name = n, nu_email = e, nu_password = p, nu_age = a\<rparr>"

text \<open>The key of a new row is one more than the largest key of the table.\<close>

definition fresh_id :: "table \<Rightarrow> int" where
  "fresh_id tbl = fold max (map user_id tbl) 0 + 1"

text \<open>
  \<open>db.session.add(user); db.session.commit()\<close>: the column defaults
  \<open>created_at\<close>, \<open>updated_at\<close> (the clock) and \<open>is_active\<close> (True) are applied.
\<close>

definition save :: "timestamp \<Rightarrow> table \<Rightarrow> new_user \<Rightarrow> user \<times> table" where
  "save now tbl nu =
     (let row = \<lparr>user_id = fresh_id tbl, name = nu_name nu, email = nu_email nu,
                 age = nu_age nu, password = nu_password nu, created_at = now,
                 updated_at = now, is_active = True\<rparr>
      in (row, tbl @ [row]))"

text \<open>\<open>db.session.delete(self); db.session.commit()\<close>.\<close>

definition delete :: "table \<Rightarrow> user \<Rightarrow> table" where
  "delete tbl u = filter (\<lambda>r. user_id r \<noteq> user_id u) tbl"

text \<open>The commit of a changed row object writes it over the row with its key.\<close>

definition commit :: "table \<Rightarrow> user \<Rightarrow> table" where
  "commit tbl u = map (\<lambda>r. if user_id r = user_id u then u else r) tbl"

text \<open>
  The keyword arguments of \<open>User.update\<close>. Every caller passes either the dictionary
  loaded by the update schema (keys among name, email, age, password, is_active) or
  the single keyword \<open>is_active\<close>, so the guard
  \<open>hasattr(self, key) and key != 'id'\<close> holds for every key that can arrive. A key
  that is absent is \<open>None\<close> here; \<open>age\<close> may be present with the value \<open>None\<close>.
\<close>

record kwargs =
  kw_name :: "string option"
  kw_email :: "string option"
  kw_age :: "int option option"
  kw_password :: "str option"
  kw_is_active :: "bool option"

definition no_kwargs :: kwargs where
  "no_kwargs = \<lparr>kw_name = None, kw_email = None, kw_age = None, kw_password = None,
                 kw_is_active = None\<rparr>"

definition setattrs :: "kwargs \<Rightarrow> user \<Rightarrow> user" where
  "setattrs kw u =
     (let u1 = (case kw_name kw of None \<Rightarrow> u | Some v \<Rightarrow> u\<lparr>name := v\<rparr>);
          u2 = (case kw_email kw of None \<Rightarrow> u1 | Some v \<Rightarrow> u1\<lparr>email := v\<rparr>);
          u3 = (case kw_age kw of None \<Rightarrow> u2 | Some v \<Rightarrow> u2\<lparr>age := v\<rparr>);
          u4 = (case kw_password kw of None \<Rightarrow> u3 | Some v \<Rightarrow> u3\<lparr>password := v\<rparr>);
          u5 = (case kw_is_active kw of None \<Rightarrow> u4 | Some v \<Rightarrow> u4\<lparr>is_active := v\<rparr>)
      in u5)"

text \<open>\<open>User.update(**kwargs)\<close>: set the attributes, stamp \<open>updated_at\<close>, commit.\<close>

definition update :: "timestamp \<Rightarrow> table \<Rightarrow> user \<Rightarrow> kwargs \<Rightarrow> user \<times> table" where
  "update now tbl u kw =
     (let u' = (setattrs kw u)\<lparr>updated_at := now\<rparr> in (u', commit tbl u'))"

section \<open>The credential functions of auth_utils.py\<close>

text \<open>
  The bcrypt binding is a library outside the repository, so its two functions are
  parameters on bytes: \<open>hashpw password salt\<close> gives the digest or raises, and
  \<open>checkpw password digest\<close> answers or raises. \<open>gensalt()\<close> is random: the salt
  drawn by a call is an argument.
\<close>

type_synonym hashpw = "bytes \<Rightarrow> bytes \<Rightarrow> exn + bytes"
type_synonym checkpw = "bytes \<Rightarrow> bytes \<Rightarrow> exn + bool"

text \<open>
  \<open>hash_password\<close> (the second definition of the module, which replaces the first):
  the password is encoded, hashed with a fresh salt, and the digest decoded. Each of
  the three steps may raise, and nothing is caught.
\<close>

definition hash_password :: "hashpw \<Rightarrow> bytes \<Rightarrow> str \<Rightarrow> exn + str" where
  "hash_password hashpw salt pw =
     (case encode pw of
        Inl e \<Rightarrow> Inl e
      | Inr encoded \<Rightarrow>
          (case hashpw encoded salt of
             Inl e \<Rightarrow> Inl e
           | Inr hashed \<Rightarrow> decode hashed))"

definition check_password :: "checkpw \<Rightarrow> str \<Rightarrow> str \<Rightarrow> exn + bool" where
  "check_password checkpw plain_password hashed_password =
     (case encode plain_password of
        Inl e \<Rightarrow> Inl e
      | Inr p \<Rightarrow>
          (case encode hashed_password of
             Inl e \<Rightarrow> Inl e
           | Inr h \<Rightarrow> checkpw p h))"

text \<open>
  \<open>verify_password\<close> takes each argument as a \<open>str\<close> or as bytes: an argument that
  is a \<open>str\<close> is encoded first, the password before the digest.
\<close>

datatype str_or_bytes = Str str | Bytes bytes

definition to_bytes :: "str_or_bytes \<Rightarrow> exn + bytes" where
  "to_bytes x = (case x of Str s \<Rightarrow> encode s | Bytes b \<Rightarrow> Inr b)"

definition verify_password :: "checkpw \<Rightarrow> str_or_bytes \<Rightarrow> str_or_bytes \<Rightarrow> exn + bool" where
  "verify_password checkpw pw hashed_password =
     (case to_bytes pw of
        Inl e \<Rightarrow> Inl e
      | Inr p \<Rightarrow>
          (case to_bytes hashed_password of
             Inl e \<Rightarrow> Inl e
           | Inr h \<Rightarrow> checkpw p h))"

section \<open>The service layer of user_service.py\<close>

definition get_all_users :: "table \<Rightarrow> user list" where
  "get_all_users tbl = filter (\<lambda>u. is_active u = True) tbl"

definition get_user_by_id :: "table \<Rightarrow> int \<Rightarrow> user option" where
  "get_user_by_id tbl uid = find (\<lambda>u. user_id u = uid \<and> is_active u = True) tbl"

definition get_user_by_email :: "table \<Rightarrow> string \<Rightarrow> user option" where
  "get_user_by_email tbl e = find (\<lambda>u. email u = e \<and> is_active u = True) tbl"

text \<open>
  The dictionary \<open>user_data\<close> that \<open>create_user\<close> reads: the keys name, email and
  password, and \<open>user_data.get('age')\<close>.
\<close>

record user_data =
  ud_name :: string
  ud_email :: string
  ud_password :: str
  ud_age :: "int option"

definition create_user ::
  "hashpw \<Rightarrow> bytes \<Rightarrow> timestamp \<Rightarrow> table \<Rightarrow> user_data \<Rightarrow> (exn + user) \<times> table" where
  "create_user hashpw salt now tbl d =
     (case find_by_email tbl (ud_email d) of
        Some existing_user \<Rightarrow> (Inl (ValueError ''Email address already exists''), tbl)
      | None \<Rightarrow>
          (case hash_password hashpw salt (ud_password d) of
             Inl e \<Rightarrow> (Inl e, tbl)
           | Inr hashed_password \<Rightarrow>
               (let (row, tbl') =
                      save now tbl (User (ud_name d) (ud_email d) hashed_password (ud_age d))
                in (Inr row, tbl'))))"

definition update_user ::
  "hashpw \<Rightarrow> bytes \<Rightarrow> timestamp \<Rightarrow> table \<Rightarrow> int \<Rightarrow> kwargs \<Rightarrow> (exn + user) \<times> table" where
  "update_user hashpw salt now tbl uid update_data =
     (case get_user_by_id tbl uid of
        None \<Rightarrow> (Inl (ValueError ''User not found''), tbl)
      | Some u \<Rightarrow>
          if (case kw_email update_data of
                None \<Rightarrow> False
              | Some e \<Rightarrow>
                  (case find_by_email tbl e of
                     None \<Rightarrow> False
                   | Some existing_user \<Rightarrow> user_id existing_user \<noteq> uid))
          then (Inl (ValueError ''Email address already exists''), tbl)
          else
            (case (case kw_password update_data of
                     None \<Rightarrow> Inr update_data
                   | Some pw \<Rightarrow>
                       (case hash_password hashpw salt pw of
                          Inl e \<Rightarrow> Inl e
                        | Inr hashed \<Rightarrow> Inr (update_data\<lparr>kw_password := Some hashed\<rparr>))) of
               Inl e \<Rightarrow> (Inl e, tbl)
             | Inr update_data' \<Rightarrow>
                 (let (u', tbl') = update now tbl u update_data' in (Inr u', tbl'))))"

definition delete_user :: "timestamp \<Rightarrow> table \<Rightarrow> int \<Rightarrow> (exn + bool) \<times> table" where
  "delete_user now tbl uid =
     (case get_user_by_id tbl uid of
        None \<Rightarrow> (Inl (ValueError ''User not found''), tbl)
      | Some u \<Rightarrow>
          (let (u', tbl') = update now tbl u (no_kwargs\<lparr>kw_is_active := Some False\<rparr>)
           in (Inr True, tbl')))"

definition permanently_delete_user :: "table \<Rightarrow> int \<Rightarrow> (exn + bool) \<times> table" where
  "permanently_delete_user tbl uid =
     (case query_get tbl uid of
        None \<Rightarrow> (Inl (ValueError ''User not found''), tbl)
      | Some u \<Rightarrow> (Inr True, delete tbl u))"

definition authenticate_user :: "checkpw \<Rightarrow> table \<Rightarrow> string \<Rightarrow> str \<Rightarrow> exn + user option" where
  "authenticate_user checkpw tbl e pw =
     (case find (\<lambda>u. email u = e \<and> is_active u = True) tbl of
        None \<Rightarrow> Inr None
      | Some u \<Rightarrow>
          (case verify_password checkpw (Str pw) (Str (password u)) of
             Inl err \<Rightarrow> Inl err
           | Inr ok \<Rightarrow> Inr (if ok then Some u else None)))"

definition get_user_count :: "table \<Rightarrow> nat" where
  "get_user_count tbl = length (filter (\<lambda>u. is_active u = True) tbl)"

definition toggle_user_status :: "timestamp \<Rightarrow> table \<Rightarrow> int \<Rightarrow> (exn + user) \<times> table" where
  "toggle_user_status now tbl uid =
     (case query_get tbl uid of
        None \<Rightarrow> (Inl (ValueError ''User not found''), tbl)
      | Some u \<Rightarrow>
          (let (u', tbl') = update now tbl u (no_kwargs\<lparr>kw_is_active := Some (\<not> is_active u)\<rparr>)
           in (Inr u', tbl')))"


subsection \<open>Search\<close>

text \<open>
  \<open>column.ilike(pattern)\<close> is the SQL comparison \<open>lower(column) LIKE lower(pattern)\<close>.
  In a LIKE pattern \<open>%\<close> stands for any run of characters, \<open>_\<close> for any single
  character, and every other character for itself; no escape character is declared by
  the query. \<open>like s p\<close> holds when the string \<open>s\<close> matches the pattern \<open>p\<close>.
\<close>

fun like :: "string \<Rightarrow> string \<Rightarrow> bool" where
  "like [] [] = True"
| "like (c # cs) [] = False"
| "like [] (p # ps) = (p = CHR ''%'' \<and> like [] ps)"
| "like (c # cs) (p # ps) =
     (if p = CHR ''%'' then like (c # cs) ps \<or> like cs (p # ps)
      else if p = CHR ''_'' then like cs ps
      else c = p \<and> like cs ps)"

text \<open>SQL \<open>lower\<close>: the letters A to Z are folded, every other character is kept.\<close>

definition lower_char :: "char \<Rightarrow> char" where
  "lower_char c =
     (let n = (of_char c :: nat) in if 65 \<le> n \<and> n \<le> 90 then char_of (n + 32) else c)"

definition lower :: "string \<Rightarrow> string" where
  "lower s = map lower_char s"

definition ilike :: "string \<Rightarrow> string \<Rightarrow> bool" where
  "ilike column pattern = like (lower column) (lower pattern)"

definition search_users :: "table \<Rightarrow> string \<Rightarrow> user list" where
  "search_users tbl query =
     (let search_term = ''%'' @ query @ ''%''
      in filter (\<lambda>u. (ilike (name u) search_term \<or> ilike (email u) search_term)
                      \<and> is_active u = True) tbl)"

section \<open>Tokens (auth_utils.py)\<close>

text \<open>
  \<open>jwt.decode\<close> belongs to a library: a parameter that, for the configured secret,
  gives the payload of a token or raises. \<open>ExpiredSignatureError\<close> is caught by the
  first handler of \<open>decode_token\<close>; every other error listed is an
  \<open>InvalidTokenError\<close> and is caught by the second. A payload is a dictionary from
  claim names to integers.
\<close>

datatype jwt_error = ExpiredSignatureError | InvalidSignatureError | DecodeError

type_synonym payload = "(string \<times> int) list"
type_synonym jwt_decode = "string \<Rightarrow> jwt_error + payload"

definition decode_token :: "jwt_decode \<Rightarrow> string \<Rightarrow> payload option" where
  "decode_token jwt_decode token =
     (case jwt_decode token of
        Inr payload \<Rightarrow> Some payload
      | Inl ExpiredSignatureError \<Rightarrow> None
      | Inl _ \<Rightarrow> None)"

section \<open>Responses\<close>

text \<open>What a schema dumps for a user: every column but the password, which is load-only.\<close>

record user_view =
  v_id :: int
  v_name :: string
  v_email :: string
  v_age :: "int option"
  v_is_active :: bool
  v_created_at :: timestamp
  v_updated_at :: timestamp

definition dump :: "user \<Rightarrow> user_view" where
  "dump u = \<lparr>v_id = user_id u, v_name = name u, v_email = email u, v_age = age u,
             v_is_active = is_active u, v_created_at = created_at u,
             v_updated_at = updated_at u\<rparr>"

text \<open>
  An error message of the validation schema: a text the source gives, or one of the
  library's default messages, named by its kind.
\<close>

datatype message =
    Text string
  | Null_default
  | Invalid_string_default
  | Invalid_email_default
  | Invalid_boolean_default
  | Length_default
  | Range_default
  | Unknown_field_default

type_synonym messages = "(string \<times> message list) list"

text \<open>
  The JSON bodies the handlers build: \<open>Failure error message\<close> is
  \<open>{'success': False, 'error': ..., 'message': ...}\<close>, \<open>Failure_of e message\<close> is
  that body with \<open>str(e)\<close> as its error, for an exception \<open>e\<close> whose text is not a
  literal of the source, \<open>Validation_error\<close> carries
  \<open>err.messages\<close> under \<open>details\<close>, \<open>User_not_found uid\<close> is the failure whose
  error is \<open>User not found\<close> and whose message names the id, \<open>Msg\<close> is \<open>{'msg': ...}\<close>, and \<open>Token uid\<close> is
  \<open>{'token': create_access_token(identity=uid)}\<close>.
\<close>

datatype body =
    Msg string
  | Token int
  | User_json user_view
  | Failure string string
  | Failure_of exn string
  | Validation_error messages
  | User_not_found int
  | Success_data user_view string
  | Success_list "user_view list" string
  | Success string

datatype response = Response nat body

section \<open>The handlers of auth_routes.py\<close>

text \<open>
  The members the two handlers read from the JSON body. A member that is absent is
  \<open>None\<close>; \<open>age\<close> may be present with the value null. Reading an absent member with
  \<open>data[...]\<close> raises \<open>KeyError\<close>, which no handler catches.
\<close>

record auth_json =
  j_name :: "string option"
  j_email :: "string option"
  j_password :: "str option"
  j_age :: "int option option"

definition register ::
  "hashpw \<Rightarrow> bytes \<Rightarrow> timestamp \<Rightarrow> table \<Rightarrow> auth_json \<Rightarrow> (exn + response) \<times> table" where
  "register hashpw salt now tbl data =
     (case j_email data of
        None \<Rightarrow> (Inl (KeyError ''email''), tbl)
      | Some e \<Rightarrow>
          (case find_by_email tbl e of
             Some existing \<Rightarrow> (Inr (Response 409 (Msg ''Email already exists'')), tbl)
           | None \<Rightarrow>
               (case j_name data of
                  None \<Rightarrow> (Inl (KeyError ''name''), tbl)
                | Some n \<Rightarrow>
                    (case j_password data of
                       None \<Rightarrow> (Inl (KeyError ''password''), tbl)
                     | Some pw \<Rightarrow>
                         (case hash_password hashpw salt pw of
                            Inl err \<Rightarrow> (Inl err, tbl)
                          | Inr hashed \<Rightarrow>
                              (let a = (case j_age data of None \<Rightarrow> Some 0 | Some v \<Rightarrow> v);
                                   (row, tbl') = save now tbl (User n e hashed a)
                               in (Inr (Response 201 (User_json (dump row))), tbl')))))))"

definition login :: "checkpw \<Rightarrow> table \<Rightarrow> auth_json \<Rightarrow> exn + response" where
  "login checkpw tbl data =
     (case j_email data of
        None \<Rightarrow> Inl (KeyError ''email'')
      | Some e \<Rightarrow>
          (case find_by_email tbl e of
             None \<Rightarrow> Inr (Response 401 (Msg ''Invalid credentials''))
           | Some u \<Rightarrow>
               (case j_password data of
                  None \<Rightarrow> Inl (KeyError ''password'')
                | Some pw \<Rightarrow>
                    (case check_password checkpw pw (password u) of
                       Inl err \<Rightarrow> Inl err
                     | Inr ok \<Rightarrow>
                         if \<not> ok then Inr (Response 401 (Msg ''Invalid credentials''))
                         else Inr (Response 200 (Token (user_id u)))))))"


section \<open>The guard \<open>token_required\<close> of auth_utils.py\<close>

text \<open>\<open>str.split(" ")\<close>: the pieces between single spaces, empty pieces kept.\<close>

fun split_space :: "string \<Rightarrow> string list" where
  "split_space [] = [[]]"
| "split_space (c # cs) =
     (if c = CHR '' '' then [] # split_space cs
      else (case split_space cs of
              [] \<Rightarrow> [[c]]
            | w # ws \<Rightarrow> (c # w) # ws))"

text \<open>
  The wrapped handler \<open>f\<close> receives the user id of the payload. The request headers
  are a list of pairs of a name and a value. Every refusal is a 401 response.
\<close>

definition token_required ::
  "jwt_decode \<Rightarrow> (int \<Rightarrow> 'a) \<Rightarrow> (string \<times> string) list \<Rightarrow> response + 'a" where
  "token_required jwt_decode f headers =
     (case (case map_of headers ''Authorization'' of
              None \<Rightarrow> Inr None
            | Some auth_header \<Rightarrow>
                (case split_space auth_header of
                   w0 # w1 # ws \<Rightarrow> Inr (Some w1)
                 | _ \<Rightarrow> Inl IndexError)) of
        Inl err \<Rightarrow>
          Inl (Response 401 (Failure ''Invalid token format''
                 ''Token should be in format: Bearer <token>''))
      | Inr token \<Rightarrow>
          (case token of
             None \<Rightarrow>
               Inl (Response 401 (Failure ''Missing token'' ''Authentication token is required''))
           | Some t \<Rightarrow>
               if t = [] then
                 Inl (Response 401 (Failure ''Missing token'' ''Authentication token is required''))
               else
                 (case decode_token jwt_decode t of
                    None \<Rightarrow>
                      Inl (Response 401 (Failure ''Invalid token'' ''Token is invalid or expired''))
                  | Some payload \<Rightarrow>
                      if payload = [] then
                        Inl (Response 401 (Failure ''Invalid token'' ''Token is invalid or expired''))
                      else
                        (case map_of payload ''user_id'' of
                           None \<Rightarrow> Inl (Response 401 (Failure ''Token validation failed'' ''user_id''))
                         | Some current_user_id \<Rightarrow> Inr (f current_user_id)))))"

section \<open>The validation schemas of user_schema.py\<close>

text \<open>
  A member of a JSON body. Numbers with a fraction, arrays and nested objects are not
  modelled, and a JSON string holds code points below 256. A body is the list of its
  members; a key is looked up with \<open>map_of\<close>.
\<close>

datatype json = JNull | JBool bool | JInt int | JStr string

type_synonym json_object = "(string \<times> json) list"

text \<open>
  What the validation library decides by rules of its own, taken as parameters: the
  general syntax check of an e-mail address (\<open>validate.Email\<close>), Python's \<open>int\<close> of a
  string, and the table by which \<open>fields.Bool\<close> reads a value other than a JSON
  boolean.
\<close>

record library =
  Email_validator :: "string \<Rightarrow> bool"
  int_of_str :: "string \<Rightarrow> int option"
  bool_table :: "json \<Rightarrow> bool option"

text \<open>The outcome of one field: the key is absent, or it has errors, or a value.\<close>

datatype 'a loaded = Missing | Errors "message list" | Value 'a

text \<open>
  \<open>Field.deserialize\<close>: an absent key is an error only for a required field (with the
  message the schema gives); null is an error unless \<open>allow_none\<close>; otherwise the value
  is converted and all validators of the field are run.
\<close>

definition deserialize ::
  "message option \<Rightarrow> (json \<Rightarrow> message list + 'a) \<Rightarrow> json option \<Rightarrow> 'a loaded" where
  "deserialize required conv raw =
     (case raw of
        None \<Rightarrow> (case required of None \<Rightarrow> Missing | Some m \<Rightarrow> Errors [m])
      | Some JNull \<Rightarrow> Errors [Null_default]
      | Some v \<Rightarrow> (case conv v of Inl errs \<Rightarrow> Errors errs | Inr x \<Rightarrow> Value x))"

definition deserialize_allow_none ::
  "message option \<Rightarrow> (json \<Rightarrow> message list + 'a) \<Rightarrow> json option \<Rightarrow> 'a option loaded" where
  "deserialize_allow_none required conv raw =
     (case raw of
        None \<Rightarrow> (case required of None \<Rightarrow> Missing | Some m \<Rightarrow> Errors [m])
      | Some JNull \<Rightarrow> Value None
      | Some v \<Rightarrow> (case conv v of Inl errs \<Rightarrow> Errors errs | Inr x \<Rightarrow> Value (Some x)))"

text \<open>Character classes of the regular expressions: \<open>a-zA-Z\<close>, \<open>0-9\<close> and \<open>\s\<close>.\<close>

definition is_letter :: "char \<Rightarrow> bool" where
  "is_letter c = (let n = (of_char c :: nat) in (65 \<le> n \<and> n \<le> 90) \<or> (97 \<le> n \<and> n \<le> 122))"

definition is_digit :: "char \<Rightarrow> bool" where
  "is_digit c = (let n = (of_char c :: nat) in 48 \<le> n \<and> n \<le> 57)"

text \<open>
  \<open>\s\<close> on a Python string: the space, tab, line feed, vertical tab, form feed and
  carriage return, the separators 28 to 31, and the code points 133 and 160.
\<close>

definition is_whitespace :: "char \<Rightarrow> bool" where
  "is_whitespace c =
     (let n = (of_char c :: nat)
      in (9 \<le> n \<and> n \<le> 13) \<or> (28 \<le> n \<and> n \<le> 32) \<or> n = 133 \<or> n = 160)"

text \<open>
  \<open>^[a-zA-Z\s]+$\<close> under \<open>re.match\<close>: one character or more, each a letter or
  whitespace (a final line feed is whitespace, so \<open>$\<close> adds nothing).
\<close>

definition name_regex :: "string \<Rightarrow> bool" where
  "name_regex s = (s \<noteq> [] \<and> list_all (\<lambda>c. is_letter c \<or> is_whitespace c) s)"

text \<open>
  \<open>^[a-zA-Z0-9._%+-]+@[a-zA-Z0-9.-]+\.[a-zA-Z]{2,}$\<close> under \<open>re.match\<close>. Neither
  class holds \<open>@\<close>, so the local part ends at the first \<open>@\<close>; the last class holds no
  dot, so the escaped dot is the last dot of the rest. \<open>$\<close> also matches before
  one final line feed.
\<close>

definition is_local_char :: "char \<Rightarrow> bool" where
  "is_local_char c = (is_letter c \<or> is_digit c \<or> c \<in> set ''._%+-'')"

definition is_domain_char :: "char \<Rightarrow> bool" where
  "is_domain_char c = (is_letter c \<or> is_digit c \<or> c \<in> set ''.-'')"

definition email_core :: "string \<Rightarrow> bool" where
  "email_core s =
     (let local_part = takeWhile (\<lambda>c. c \<noteq> CHR ''@'') s;
          rest = dropWhile (\<lambda>c. c \<noteq> CHR ''@'') s
      in case rest of
           [] \<Rightarrow> False
         | at # domain_part \<Rightarrow>
             (let tld_rev = takeWhile (\<lambda>c. c \<noteq> CHR ''.'') (rev domain_part)
              in case dropWhile (\<lambda>c. c \<noteq> CHR ''.'') (rev domain_part) of
                   [] \<Rightarrow> False
                 | dot # host_rev \<Rightarrow>
                     local_part \<noteq> [] \<and> list_all is_local_char local_part
                     \<and> host_rev \<noteq> [] \<and> list_all is_domain_char host_rev
                     \<and> 2 \<le> length tld_rev \<and> list_all is_letter tld_rev))"

definition email_pattern :: "string \<Rightarrow> bool" where
  "email_pattern s =
     (email_core s \<or> (s \<noteq> [] \<and> last s = CHR 0x0A \<and> email_core (butlast s)))"


subsection \<open>Validators and fields\<close>

definition validate_Length :: "nat option \<Rightarrow> nat option \<Rightarrow> string \<Rightarrow> message list" where
  "validate_Length lo hi s =
     (if (case lo of None \<Rightarrow> False | Some m \<Rightarrow> length s < m)
         \<or> (case hi of None \<Rightarrow> False | Some m \<Rightarrow> m < length s)
      then [Length_default] else [])"

definition validate_Range :: "int \<Rightarrow> int \<Rightarrow> int \<Rightarrow> message list" where
  "validate_Range lo hi n = (if n < lo \<or> hi < n then [Range_default] else [])"

definition validate_Regexp :: "(string \<Rightarrow> bool) \<Rightarrow> message \<Rightarrow> string \<Rightarrow> message list" where
  "validate_Regexp regex error s = (if regex s then [] else [error])"

text \<open>A field runs every validator of its list and raises all their messages together.\<close>

definition validated :: "message list \<Rightarrow> 'a \<Rightarrow> message list + 'a" where
  "validated errs x = (if errs = [] then Inr x else Inl errs)"

definition name_field :: "json \<Rightarrow> message list + string" where
  "name_field v =
     (case v of
        JStr s \<Rightarrow>
          validated (validate_Length (Some 2) (Some 100) s
                     @ validate_Regexp name_regex
                         (Text ''Name can only contain letters and spaces'') s) s
      | _ \<Rightarrow> Inl [Invalid_string_default])"

text \<open>\<open>fields.Email\<close> puts the library's syntax check before the validators given.\<close>

definition email_field :: "library \<Rightarrow> json \<Rightarrow> message list + string" where
  "email_field lib v =
     (case v of
        JStr s \<Rightarrow>
          validated ((if Email_validator lib s then [] else [Invalid_email_default])
                     @ validate_Length None (Some 120) s) s
      | _ \<Rightarrow> Inl [Invalid_email_default])"

definition age_field :: "library \<Rightarrow> json \<Rightarrow> message list + int" where
  "age_field lib v =
     (case v of
        JInt n \<Rightarrow> validated (validate_Range 1 150 n) n
      | JStr s \<Rightarrow>
          (case int_of_str lib s of
             None \<Rightarrow> Inl [Text ''Age must be between 1 and 150'']
           | Some n \<Rightarrow> validated (validate_Range 1 150 n) n)
      | _ \<Rightarrow> Inl [Text ''Age must be between 1 and 150''])"

definition password_field :: "json \<Rightarrow> message list + string" where
  "password_field v =
     (case v of
        JStr s \<Rightarrow> validated (validate_Length (Some 6) (Some 128) s) s
      | _ \<Rightarrow> Inl [Text ''Password must be at least 6 characters long''])"

definition is_active_field :: "library \<Rightarrow> json \<Rightarrow> message list + bool" where
  "is_active_field lib v =
     (case v of
        JBool b \<Rightarrow> Inr b
      | _ \<Rightarrow>
          (case bool_table lib v of
             None \<Rightarrow> Inl [Invalid_boolean_default]
           | Some b \<Rightarrow> Inr b))"

subsection \<open>Loading\<close>

definition errors_of :: "string \<Rightarrow> 'a loaded \<Rightarrow> messages" where
  "errors_of key r = (case r of Errors errs \<Rightarrow> [(key, errs)] | _ \<Rightarrow> [])"

definition value_of :: "'a loaded \<Rightarrow> 'a option" where
  "value_of r = (case r of Value x \<Rightarrow> Some x | _ \<Rightarrow> None)"

text \<open>A key of the body that is no load field of the schema is an error of its own.\<close>

definition unknown_fields :: "string list \<Rightarrow> json_object \<Rightarrow> messages" where
  "unknown_fields known data =
     map (\<lambda>k. (k, [Unknown_field_default]))
       (filter (\<lambda>k. k \<notin> set known) (remdups (map fst data)))"

text \<open>
  The hook \<open>validate_email_format\<close> of both schemas, on \<open>data.get('email')\<close>: the
  messages of the \<open>ValidationError\<close> it raises, or none.
\<close>

definition validate_email_format :: "string option \<Rightarrow> messages" where
  "validate_email_format e =
     (case e of
        None \<Rightarrow> []
      | Some s \<Rightarrow>
          if s \<noteq> [] \<and> \<not> email_pattern s then [(''email'', [Text ''Invalid email format''])]
          else [])"

text \<open>
  The password that a schema loads is handed to the service as a \<open>str\<close>.
\<close>

text \<open>
  \<open>Schema.load\<close>: every load field is deserialized and the errors of all of them are
  stored; the \<open>post_load\<close> hook is invoked only when no error was stored, and the
  messages it raises are then the whole result. The load fields of \<open>UserSchema\<close> are
  name, email, age and password (the other fields are dump-only).
\<close>

definition UserSchema_errors :: "library \<Rightarrow> json_object \<Rightarrow> messages" where
  "UserSchema_errors lib data =
     errors_of ''name''
       (deserialize (Some (Text ''Name is required'')) name_field (map_of data ''name''))
     @ errors_of ''email''
         (deserialize (Some (Text ''Email is required'')) (email_field lib) (map_of data ''email''))
     @ errors_of ''age'' (deserialize_allow_none None (age_field lib) (map_of data ''age''))
     @ errors_of ''password''
         (deserialize (Some (Text ''Password is required'')) password_field
            (map_of data ''password''))
     @ unknown_fields [''name'', ''email'', ''age'', ''password''] data"

definition UserSchema_load :: "library \<Rightarrow> json_object \<Rightarrow> messages + user_data" where
  "UserSchema_load lib data =
     (let errors = UserSchema_errors lib data
      in if errors \<noteq> [] then Inl errors
         else
           (case (value_of (deserialize (Some (Text ''Name is required'')) name_field
                              (map_of data ''name'')),
                  value_of (deserialize (Some (Text ''Email is required'')) (email_field lib)
                              (map_of data ''email'')),
                  value_of (deserialize (Some (Text ''Password is required'')) password_field
                              (map_of data ''password''))) of
              (Some n, Some e, Some p) \<Rightarrow>
                (let post = validate_email_format (Some e)
                 in if post \<noteq> [] then Inl post
                    else Inr \<lparr>ud_name = n, ud_email = e, ud_password = code_points p,
                              ud_age = (case value_of (deserialize_allow_none None (age_field lib)
                                                         (map_of data ''age'')) of
                                          None \<Rightarrow> None
                                        | Some a \<Rightarrow> a)\<rparr>)
            | _ \<Rightarrow> Inl errors))"

definition UserUpdateSchema_errors :: "library \<Rightarrow> json_object \<Rightarrow> messages" where
  "UserUpdateSchema_errors lib data =
     errors_of ''name'' (deserialize None name_field (map_of data ''name''))
     @ errors_of ''email'' (deserialize None (email_field lib) (map_of data ''email''))
     @ errors_of ''age'' (deserialize_allow_none None (age_field lib) (map_of data ''age''))
     @ errors_of ''password'' (deserialize None password_field (map_of data ''password''))
     @ errors_of ''is_active'' (deserialize None (is_active_field lib) (map_of data ''is_active''))
     @ unknown_fields [''name'', ''email'', ''age'', ''password'', ''is_active''] data"

definition UserUpdateSchema_load :: "library \<Rightarrow> json_object \<Rightarrow> messages + kwargs" where
  "UserUpdateSchema_load lib data =
     (let errors = UserUpdateSchema_errors lib data
      in if errors \<noteq> [] then Inl errors
         else
           (let loaded_data =
                  \<lparr>kw_name = value_of (deserialize None name_field (map_of data ''name'')),
                   kw_email = value_of (deserialize None (email_field lib) (map_of data ''email'')),
                   kw_age = value_of (deserialize_allow_none None (age_field lib)
                                        (map_of data ''age'')),
                   kw_password = map_option code_points
                                   (value_of (deserialize None password_field
                                                (map_of data ''password''))),
                   kw_is_active = value_of (deserialize None (is_active_field lib)
                                              (map_of data ''is_active''))\<rparr>;
                post = validate_email_format (kw_email loaded_data)
            in if post \<noteq> [] then Inl post else Inr loaded_data))"

section \<open>The handlers of user_routes.py\<close>

text \<open>
  \<open>POST /users\<close>. An empty body is refused first, then the schema is loaded, then the
  service is called; a \<open>ValueError\<close> of the service (one of its subclasses included)
  is a 400, any other exception a 500.
\<close>

definition create_user_route ::
  "library \<Rightarrow> hashpw \<Rightarrow> bytes \<Rightarrow> timestamp \<Rightarrow> table \<Rightarrow> json_object \<Rightarrow> response \<times> table" where
  "create_user_route lib hashpw salt now tbl json_data =
     (if json_data = [] then
        (Response 400 (Failure ''No input data provided''
           ''Request body must contain JSON data''), tbl)
      else
        (case UserSchema_load lib json_data of
           Inl messages \<Rightarrow> (Response 400 (Validation_error messages), tbl)
         | Inr data \<Rightarrow>
             (case create_user hashpw salt now tbl data of
                (Inr u, tbl') \<Rightarrow>
                  (Response 201 (Success_data (dump u) ''User created successfully''), tbl')
              | (Inl (ValueError m), tbl') \<Rightarrow>
                  (Response 400 (Failure m ''Failed to create user''), tbl')
              | (Inl e, tbl') \<Rightarrow>
                  if is_ValueError e
                  then (Response 400 (Failure_of e ''Failed to create user''), tbl')
                  else (Response 500 (Failure_of e ''Internal server error''), tbl'))))"

text \<open>\<open>PUT /users/<id>\<close>.\<close>

definition update_user_route ::
  "library \<Rightarrow> hashpw \<Rightarrow> bytes \<Rightarrow> timestamp \<Rightarrow> table \<Rightarrow> int \<Rightarrow> json_object
   \<Rightarrow> response \<times> table" where
  "update_user_route lib hashpw salt now tbl uid json_data =
     (case get_user_by_id tbl uid of
        None \<Rightarrow> (Response 404 (User_not_found uid), tbl)
      | Some existing_user \<Rightarrow>
          if json_data = [] then
            (Response 400 (Failure ''No input data provided''
               ''Request body must contain JSON data''), tbl)
          else
            (case UserUpdateSchema_load lib json_data of
               Inl messages \<Rightarrow> (Response 400 (Validation_error messages), tbl)
             | Inr data \<Rightarrow>
                 (case update_user hashpw salt now tbl uid data of
                    (Inr u, tbl') \<Rightarrow>
                      (Response 200 (Success_data (dump u) ''User updated successfully''), tbl')
                  | (Inl (ValueError m), tbl') \<Rightarrow>
                      (Response 400 (Failure m ''Failed to update user''), tbl')
                  | (Inl e, tbl') \<Rightarrow>
                      if is_ValueError e
                      then (Response 400 (Failure_of e ''Failed to update user''), tbl')
                      else (Response 500 (Failure_of e ''Internal server error''), tbl'))))"


text \<open>The messages a field raised, if it raised any.\<close>

definition raised :: "'a loaded \<Rightarrow> message list option" where
  "raised r = (case r of Errors errs \<Rightarrow> Some errs | _ \<Rightarrow> None)"

section \<open>Stand-ins for evaluating examples\<close>

text \<open>
  Concrete values at which the theorems below are evaluated. The stand-ins for the
  libraries are toys that agree with the libraries on the values used in the examples:
  a digest is the marker \<open>$2b$\<close> followed by the password, a digest without the marker
  is refused with \<open>ValueError\<close> as bcrypt refuses a malformed salt; the address syntax
  check wants a non-empty local part and a domain that is \<open>localhost\<close> or holds a dot.
\<close>

definition sample_hashpw :: hashpw where
  "sample_hashpw pw salt = Inr (salt @ pw)"

definition sample_checkpw :: checkpw where
  "sample_checkpw pw digest =
     (if take 4 digest = ''$2b$'' then Inr (drop 4 digest = pw)
      else Inl (ValueError ''Invalid salt''))"

definition sample_jwt_decode :: jwt_decode where
  "sample_jwt_decode token =
     (if token = ''expired'' then Inl ExpiredSignatureError
      else if token = ''valid'' then Inr [(''user_id'', 1), (''exp'', 3700), (''iat'', 100)]
      else Inl DecodeError)"

definition sample_library :: library where
  "sample_library =
     \<lparr>Email_validator =
        (\<lambda>s. takeWhile (\<lambda>c. c \<noteq> CHR ''@'') s \<noteq> []
             \<and> (let d = drop 1 (dropWhile (\<lambda>c. c \<noteq> CHR ''@'') s)
                in d = ''localhost'' \<or> CHR ''.'' \<in> set d)),
      int_of_str = (\<lambda>s. None),
      bool_table = (\<lambda>v. None)\<rparr>"

definition ann :: user where
  "ann = \<lparr>user_id = 1, name = ''Ann Lee'', email = ''ann@x.com'', age = Some 30,
           password = code_points ''$2b$secret1'', created_at = 10, updated_at = 10,
           is_active = False\<rparr>"

definition bob :: user where
  "bob = \<lparr>user_id = 2, name = ''Bob Ray'', email = ''bob@x.com'', age = None,
           password = code_points ''$2b$hunter22'', created_at = 20, updated_at = 20,
           is_active = True\<rparr>"

section \<open>Encoding\<close>

lemma encode_surrogate: "list_ex is_surrogate s \<Longrightarrow> encode s = Inl UnicodeEncodeError"
  by (simp add: encode_def)

lemma encode_total: "\<not> list_ex is_surrogate s \<Longrightarrow> \<exists>b. encode s = Inr b"
  by (simp add: encode_def)

lemma of_char_not_surrogate: "\<not> is_surrogate (of_char c)"
proof -
  have "(of_char c :: nat) < 256" by simp
  then show ?thesis unfolding is_surrogate_def by linarith
qed

text \<open>On text of code points below 128 the codec is the identity.\<close>

lemma encode_ascii:
  "list_all (\<lambda>c. (of_char c :: nat) < 128) s \<Longrightarrow> encode (code_points s) = Inr s"
proof -
  assume a: "list_all (\<lambda>c. (of_char c :: nat) < 128) s"
  have "\<not> list_ex is_surrogate (code_points s)"
    by (simp add: code_points_def list_ex_iff of_char_not_surrogate)
  moreover from a have "concat (map utf8 (code_points s)) = s"
    by (induction s) (simp_all add: code_points_def utf8_def)
  ultimately show ?thesis by (simp add: encode_def)
qed

lemma decode_ascii:
  "list_all (\<lambda>c. (of_char c :: nat) < 128) s \<Longrightarrow> decode s = Inr (code_points s)"
  unfolding decode_def code_points_def
  by (induction s) (simp_all add: decoded_def)

lemma codec_examples:
  "encode (code_points ''secret1'') = Inr ''secret1''"
  "decode ''$2b$secret1'' = Inr (code_points ''$2b$secret1'')"
  by (simp_all add: encode_ascii decode_ascii)

lemma codec_examples_beyond_ascii:
  "encode [0x20AC] = Inr [CHR 0xE2, CHR 0x82, CHR 0xAC]"
  "decode [CHR 0xE2, CHR 0x82, CHR 0xAC] = Inr [0x20AC]"
  "encode [0x1F600] = Inr [CHR 0xF0, CHR 0x9F, CHR 0x98, CHR 0x80]"
  "decode [CHR 0xF0, CHR 0x9F, CHR 0x98, CHR 0x80] = Inr [0x1F600]"
  "encode [0xD800] = Inl UnicodeEncodeError"
  "decode [CHR 0xED, CHR 0xA0, CHR 0x80] = Inl UnicodeDecodeError"
  "decode [CHR 0xC0, CHR 0x80] = Inl UnicodeDecodeError"
  "decode [CHR 0xE2, CHR 0x82] = Inl UnicodeDecodeError"
  by (simp_all add: encode_def decode_def utf8_def is_surrogate_def
      decoded_def continuation_def second_byte_def char_of_eq_iff)

lemma sample_hash_password:
  "list_all (\<lambda>c. (of_char c :: nat) < 128) pw
   \<Longrightarrow> hash_password sample_hashpw ''$2b$'' (code_points pw) = Inr (code_points (''$2b$'' @ pw))"
  by (simp add: hash_password_def sample_hashpw_def encode_ascii decode_ascii)

section \<open>Lookups in the table\<close>

lemma find_distinct_key:
  "distinct (map f xs) \<Longrightarrow> x \<in> set xs \<Longrightarrow> find (\<lambda>y. f y = f x) xs = Some x"
  by (induction xs) (auto simp: image_iff)

lemma primary_key_same_row:
  "primary_key tbl \<Longrightarrow> u \<in> set tbl \<Longrightarrow> r \<in> set tbl \<Longrightarrow> user_id r = user_id u \<Longrightarrow> r = u"
  unfolding primary_key_def by (metis distinct_map inj_onD)

lemma query_get_row: "primary_key tbl \<Longrightarrow> u \<in> set tbl \<Longrightarrow> query_get tbl (user_id u) = Some u"
  unfolding primary_key_def query_get_def by (rule find_distinct_key)

section \<open>Soft-deleted users\<close>

text \<open>
  C9. A soft-deleted row of the table (active flag false) is in no result of
  \<open>get_all_users\<close> and in no result of \<open>search_users\<close>, whatever the query; yet
  \<open>toggle_user_status\<close> on its id succeeds (it reactivates the row and stamps it) and
  \<open>permanently_delete_user\<close> on its id succeeds (it removes the row). Neither answers
  with the error \<open>User not found\<close>.
\<close>

theorem soft_deleted_hidden_but_addressable:
  assumes pk: "primary_key tbl" and u: "u \<in> set tbl" and inactive: "\<not> is_active u"
  shows "user_id u \<notin> user_id ` set (get_all_users tbl)
       \<and> user_id u \<notin> user_id ` set (search_users tbl q)
       \<and> toggle_user_status now tbl (user_id u)
           = (Inr (u\<lparr>is_active := True, updated_at := now\<rparr>),
              commit tbl (u\<lparr>is_active := True, updated_at := now\<rparr>))
       \<and> permanently_delete_user tbl (user_id u) = (Inr True, delete tbl u)"
proof -
  have get: "query_get tbl (user_id u) = Some u"
    using pk u by (rule query_get_row)
  have same: "r = u" if "r \<in> set tbl" "user_id r = user_id u" for r
    using pk u that by (rule primary_key_same_row)
  have a: "user_id u \<notin> user_id ` set (get_all_users tbl)"
    using same inactive by (auto simp: get_all_users_def)
  have b: "user_id u \<notin> user_id ` set (search_users tbl q)"
    using same inactive by (auto simp: search_users_def Let_def)
  have c: "toggle_user_status now tbl (user_id u)
           = (Inr (u\<lparr>is_active := True, updated_at := now\<rparr>),
              commit tbl (u\<lparr>is_active := True, updated_at := now\<rparr>))"
    using inactive
    by (simp add: toggle_user_status_def get update_def setattrs_def no_kwargs_def Let_def)
  have d: "permanently_delete_user tbl (user_id u) = (Inr True, delete tbl u)"
    by (simp add: permanently_delete_user_def get)
  from a b c d show ?thesis by blast
qed

theorem soft_deleted_hidden_but_addressable_witness:
  "user_id ann \<notin> user_id ` set (get_all_users [ann, bob])
   \<and> user_id ann \<notin> user_id ` set (search_users [ann, bob] ''ann'')
   \<and> toggle_user_status 50 [ann, bob] 1
       = (Inr (ann\<lparr>is_active := True, updated_at := 50\<rparr>),
          [ann\<lparr>is_active := True, updated_at := 50\<rparr>, bob])
   \<and> permanently_delete_user [ann, bob] 1 = (Inr True, [bob])"
proof -
  have pk: "primary_key [ann, bob]" by (simp add: primary_key_def ann_def bob_def)
  have u: "ann \<in> set [ann, bob]" by simp
  have i: "\<not> is_active ann" by (simp add: ann_def)
  have id: "user_id ann = 1" by (simp add: ann_def)
  have c: "commit [ann, bob] (ann\<lparr>is_active := True, updated_at := 50\<rparr>)
           = [ann\<lparr>is_active := True, updated_at := 50\<rparr>, bob]"
    by (simp add: commit_def ann_def bob_def)
  have d: "delete [ann, bob] ann = [bob]" by (simp add: delete_def ann_def bob_def)
  show ?thesis
    using soft_deleted_hidden_but_addressable [OF pk u i, of "''ann''" 50]
    unfolding id c d by simp
qed


section \<open>Registration with an e-mail address that is taken\<close>

lemma find_by_email_hit:
  "r \<in> set tbl \<Longrightarrow> \<exists>x. find_by_email tbl (email r) = Some x"
  unfolding find_by_email_def by (induction tbl) auto

lemma value_of_deserialize_str:
  "value_of (deserialize req (email_field lib) raw) = Some e \<Longrightarrow> raw = Some (JStr e)"
  by (auto simp: value_of_def deserialize_def email_field_def validated_def
      split: option.splits json.splits sum.splits if_splits loaded.splits)

lemma UserSchema_load_email:
  "UserSchema_load lib data = Inr d \<Longrightarrow> map_of data ''email'' = Some (JStr (ud_email d))"
  unfolding UserSchema_load_def Let_def
  by (auto split: if_splits option.splits prod.splits dest: value_of_deserialize_str)

text \<open>
  C2. When the e-mail address of a registration equals, character for character, the
  address of a row of the table, whether that row is active or soft-deleted, the
  registration fails and the table is left as it was: the service \<open>create_user\<close>
  raises \<open>ValueError\<close> with the text \<open>Email address already exists\<close>, the handler
  \<open>register\<close> answers 409 with \<open>Email already exists\<close>, and the handler of
  \<open>POST /users\<close> answers 400.
\<close>

theorem duplicate_email_rejected:
  assumes r: "r \<in> set tbl"
  shows "(ud_email d = email r \<longrightarrow>
            create_user hashpw salt now tbl d
              = (Inl (ValueError ''Email address already exists''), tbl))
       \<and> (j_email data = Some (email r) \<longrightarrow>
            register hashpw salt now tbl data
              = (Inr (Response 409 (Msg ''Email already exists'')), tbl))
       \<and> (map_of json_data ''email'' = Some (JStr (email r)) \<longrightarrow>
            (\<exists>b. create_user_route lib hashpw salt now tbl json_data = (Response 400 b, tbl)))"
proof -
  obtain x where x: "find_by_email tbl (email r) = Some x"
    using find_by_email_hit [OF r] by blast
  have a: "create_user hashpw salt now tbl d
             = (Inl (ValueError ''Email address already exists''), tbl)"
    if "ud_email d = email r" for d
    using that x by (simp add: create_user_def)
  have b: "register hashpw salt now tbl data
             = (Inr (Response 409 (Msg ''Email already exists'')), tbl)"
    if "j_email data = Some (email r)"
    using that x by (simp add: register_def)
  have c: "\<exists>b. create_user_route lib hashpw salt now tbl json_data = (Response 400 b, tbl)"
    if m: "map_of json_data ''email'' = Some (JStr (email r))"
  proof (cases "UserSchema_load lib json_data")
    case (Inl msgs)
    with m show ?thesis by (auto simp: create_user_route_def)
  next
    case (Inr dd)
    from UserSchema_load_email [OF Inr] m have "ud_email dd = email r" by simp
    from a [OF this] Inr m show ?thesis by (auto simp: create_user_route_def)
  qed
  from a b c show ?thesis by blast
qed


theorem duplicate_email_rejected_witness:
  "create_user sample_hashpw ''$2b$'' 60 [ann, bob]
     \<lparr>ud_name = ''Ann Two'', ud_email = ''ann@x.com'', ud_password = code_points ''secret2'', ud_age = None\<rparr>
     = (Inl (ValueError ''Email address already exists''), [ann, bob])
   \<and> register sample_hashpw ''$2b$'' 60 [ann, bob]
       \<lparr>j_name = Some ''Ann Two'', j_email = Some ''ann@x.com'', j_password = Some (code_points ''secret2''),
        j_age = None\<rparr>
     = (Inr (Response 409 (Msg ''Email already exists'')), [ann, bob])
   \<and> (\<exists>b. create_user_route sample_library sample_hashpw ''$2b$'' 60 [ann, bob]
            [(''name'', JStr ''Ann Two''), (''email'', JStr ''ann@x.com''),
             (''password'', JStr ''secret2'')]
          = (Response 400 b, [ann, bob]))"
proof -
  have r: "ann \<in> set [ann, bob]" by simp
  have e: "email ann = ''ann@x.com''" by (simp add: ann_def)
  show ?thesis
    using duplicate_email_rejected [OF r, of
        "\<lparr>ud_name = ''Ann Two'', ud_email = ''ann@x.com'', ud_password = code_points ''secret2'', ud_age = None\<rparr>"
        sample_hashpw "''$2b$''" 60
        "\<lparr>j_name = Some ''Ann Two'', j_email = Some ''ann@x.com'', j_password = Some (code_points ''secret2''),
          j_age = None\<rparr>"
        "[(''name'', JStr ''Ann Two''), (''email'', JStr ''ann@x.com''),
          (''password'', JStr ''secret2'')]" sample_library]
    unfolding e by simp
qed

section \<open>Authentication\<close>

lemma authenticate_user_succeeds_iff:
  "authenticate_user checkpw tbl e pw = Inr (Some u)
   \<longleftrightarrow> find (\<lambda>r. email r = e \<and> is_active r) tbl = Some u
       \<and> verify_password checkpw (Str pw) (Str (password u)) = Inr True"
  by (auto simp: authenticate_user_def split: option.splits sum.splits)

lemma authenticate_user_active_only:
  "authenticate_user checkpw tbl e pw = Inr (Some u)
   \<Longrightarrow> u \<in> set tbl \<and> email u = e \<and> is_active u"
  by (auto simp: authenticate_user_succeeds_iff find_Some_iff)

lemma login_succeeds_iff:
  "login checkpw tbl data = Inr (Response 200 (Token uid))
   \<longleftrightarrow> (\<exists>e pw u. j_email data = Some e \<and> j_password data = Some pw
         \<and> find_by_email tbl e = Some u
         \<and> check_password checkpw pw (password u) = Inr True
         \<and> user_id u = uid)"
  by (auto simp: login_def split: option.splits sum.splits)

text \<open>
  C1. The claim is that authentication, the login handler included, succeeds only for
  an active user. The handler \<open>login\<close> looks the row up by e-mail alone: for the
  soft-deleted user Ann and her password it answers 200 with a token for her id, while
  the service \<open>authenticate_user\<close>, which filters on the active flag, returns no user
  for the same pair.
\<close>

theorem login_accepts_soft_deleted_user:
  "login sample_checkpw [ann, bob]
     \<lparr>j_name = None, j_email = Some ''ann@x.com'', j_password = Some (code_points ''secret1''),
      j_age = None\<rparr>
     = Inr (Response 200 (Token 1))
   \<and> is_active ann = False
   \<and> authenticate_user sample_checkpw [ann, bob] ''ann@x.com'' (code_points ''secret1'')
       = Inr None"
  by (simp add: login_def authenticate_user_def find_by_email_def check_password_def
      encode_ascii sample_checkpw_def ann_def bob_def)

section \<open>Password verification\<close>

text \<open>
  What the two functions do with the library: when both arguments can be encoded, the
  result is the library's, its exception included; nothing is caught.
\<close>

lemma verify_password_encoded:
  "encode pw = Inr p \<Longrightarrow> encode hashed = Inr h
   \<Longrightarrow> verify_password checkpw (Str pw) (Str hashed) = checkpw p h
       \<and> check_password checkpw pw hashed = checkpw p h"
  by (simp add: verify_password_def check_password_def to_bytes_def)

lemma verify_password_unencodable:
  "list_ex is_surrogate pw
   \<Longrightarrow> verify_password checkpw (Str pw) hashed = Inl UnicodeEncodeError
       \<and> check_password checkpw pw digest = Inl UnicodeEncodeError"
  by (simp add: verify_password_def check_password_def to_bytes_def encode_surrogate)

text \<open>
  C3. The claim is that verification returns a boolean for every password string and
  every digest string and never raises. A password that holds a lone surrogate, the
  code point \<open>0xD800\<close>, cannot be encoded to UTF-8: \<open>verify_password\<close> and
  \<open>check_password\<close> raise \<open>UnicodeEncodeError\<close> before the library is called,
  whatever the library and whatever the digest.
\<close>

theorem verify_password_raises_on_unencodable_password:
  "verify_password checkpw (Str [0xD800]) hashed = Inl UnicodeEncodeError
   \<and> check_password checkpw [0xD800] digest = Inl UnicodeEncodeError"
  by (simp add: verify_password_def check_password_def to_bytes_def encode_def is_surrogate_def)

section \<open>Token verification\<close>

lemma decode_token_None_iff:
  "decode_token jwt_decode t = None \<longleftrightarrow> (\<exists>err. jwt_decode t = Inl err)"
  by (auto simp: decode_token_def split: sum.splits jwt_error.splits)

text \<open>
  C8, as amended. Whatever the error with which the library refuses a token (expired,
  bad signature or malformed), \<open>decode_token\<close> returns \<open>None\<close>, and the guard
  \<open>token_required\<close> answers a request carrying that token with the same 401 response,
  \<open>Invalid token\<close>. The kind of the failure is not part of either result.
\<close>

theorem token_failures_not_told_apart:
  assumes "jwt_decode t = Inl err"
    and "map_of headers ''Authorization'' = Some h"
    and "split_space h = w0 # t # ws"
    and "t \<noteq> []"
  shows "decode_token jwt_decode t = None
       \<and> token_required jwt_decode f headers
           = Inl (Response 401 (Failure ''Invalid token'' ''Token is invalid or expired''))"
  using assms
  by (auto simp: token_required_def decode_token_def split: sum.splits jwt_error.splits)

theorem token_failures_not_told_apart_witness:
  "decode_token sample_jwt_decode ''expired'' = None
   \<and> token_required sample_jwt_decode (\<lambda>uid. uid) [(''Authorization'', ''Bearer expired'')]
       = Inl (Response 401 (Failure ''Invalid token'' ''Token is invalid or expired''))"
proof -
  have a: "sample_jwt_decode ''expired'' = Inl ExpiredSignatureError"
    by (simp add: sample_jwt_decode_def)
  have b: "map_of [(''Authorization'', ''Bearer expired'')] ''Authorization''
             = Some ''Bearer expired''"
    by simp
  have c: "split_space ''Bearer expired'' = ''Bearer'' # ''expired'' # []" by simp
  have d: "''expired'' \<noteq> []" by simp
  show ?thesis
    using token_failures_not_told_apart
      [where jwt_decode = sample_jwt_decode and t = "''expired''"
         and f = "\<lambda>uid::int. uid", OF a b c d]
    by simp
qed

text \<open>
  C8 as stated fails: an expired token and a malformed one give the same result of
  \<open>decode_token\<close> and the same response of the guard.
\<close>

theorem expired_and_malformed_same_result:
  "sample_jwt_decode ''expired'' = Inl ExpiredSignatureError
   \<and> sample_jwt_decode ''garbage'' = Inl DecodeError
   \<and> decode_token sample_jwt_decode ''expired'' = decode_token sample_jwt_decode ''garbage''
   \<and> token_required sample_jwt_decode (\<lambda>uid. uid) [(''Authorization'', ''Bearer expired'')]
       = token_required sample_jwt_decode (\<lambda>uid. uid) [(''Authorization'', ''Bearer garbage'')]"
  by (simp add: sample_jwt_decode_def decode_token_def token_required_def)


section \<open>Search\<close>













section \<open>Partial update\<close>

lemma get_user_by_id_row:
  "get_user_by_id tbl uid = Some u \<Longrightarrow> u \<in> set tbl \<and> user_id u = uid \<and> is_active u"
  by (auto simp: get_user_by_id_def find_Some_iff)




text \<open>
  The refusals of \<open>update_user\<close> that are not a duplicate address: a supplied password
  that cannot be hashed raises before anything is written.
\<close>

lemma update_user_unencodable_password:
  assumes "get_user_by_id tbl uid = Some u" and "kw_email kw = None"
    and "kw_password kw = Some pw" and "list_ex is_surrogate pw"
  shows "update_user hashpw salt now tbl uid kw = (Inl UnicodeEncodeError, tbl)"
  using assms by (simp add: update_user_def hash_password_def encode_surrogate)


section \<open>The active flag through the update handler\<close>

lemma UserUpdateSchema_load_is_active:
  "UserUpdateSchema_load lib [(''is_active'', JBool b)] = Inr (no_kwargs\<lparr>kw_is_active := Some b\<rparr>)"
  by (simp add: UserUpdateSchema_load_def UserUpdateSchema_errors_def deserialize_def
      deserialize_allow_none_def errors_of_def value_of_def unknown_fields_def
      is_active_field_def validate_email_format_def no_kwargs_def Let_def)

lemma find_commit:
  "user_id u' = k \<Longrightarrow>
   find (\<lambda>r. user_id r = k \<and> P r) (commit tbl u')
     = (if P u' \<and> k \<in> user_id ` set tbl then Some u' else None)"
  unfolding commit_def by (induction tbl) auto

lemma commit_lookup:
  assumes "u \<in> set tbl" "user_id u' = user_id u"
  shows "query_get (commit tbl u') (user_id u) = Some u'"
    and "get_user_by_id (commit tbl u') (user_id u) = (if is_active u' then Some u' else None)"
  using find_commit [OF assms(2), of "\<lambda>r. True" tbl]
    find_commit [OF assms(2), of "\<lambda>r. is_active r = True" tbl] assms(1)
  by (simp_all add: query_get_def get_user_by_id_def)

text \<open>
  C10. The update schema loads the body \<open>{"is_active": false}\<close>, and the handler of
  \<open>PUT /users/<id>\<close> on an existing active user then answers 200 and sets the flag of
  that row to false: the row is still in the table but is no longer found as an
  active user.
\<close>

theorem update_route_sets_is_active:
  assumes "get_user_by_id tbl uid = Some u"
  shows "UserUpdateSchema_load lib [(''is_active'', JBool False)]
           = Inr (no_kwargs\<lparr>kw_is_active := Some False\<rparr>)
       \<and> update_user_route lib hashpw salt now tbl uid [(''is_active'', JBool False)]
           = (Response 200 (Success_data (dump (u\<lparr>is_active := False, updated_at := now\<rparr>))
                              ''User updated successfully''),
              commit tbl (u\<lparr>is_active := False, updated_at := now\<rparr>))
       \<and> query_get (commit tbl (u\<lparr>is_active := False, updated_at := now\<rparr>)) uid
           = Some (u\<lparr>is_active := False, updated_at := now\<rparr>)
       \<and> get_user_by_id (commit tbl (u\<lparr>is_active := False, updated_at := now\<rparr>)) uid = None"
proof -
  let ?u' = "u\<lparr>is_active := False, updated_at := now\<rparr>"
  have row: "u \<in> set tbl" "user_id u = uid" using get_user_by_id_row [OF assms] by simp_all
  have a: "UserUpdateSchema_load lib [(''is_active'', JBool False)]
             = Inr (no_kwargs\<lparr>kw_is_active := Some False\<rparr>)"
    by (rule UserUpdateSchema_load_is_active)
  have s: "update_user hashpw salt now tbl uid (no_kwargs\<lparr>kw_is_active := Some False\<rparr>)
             = (Inr ?u', commit tbl ?u')"
    using assms
    by (simp add: update_user_def update_def setattrs_def no_kwargs_def Let_def)
  have b: "update_user_route lib hashpw salt now tbl uid [(''is_active'', JBool False)]
             = (Response 200 (Success_data (dump ?u') ''User updated successfully''),
                commit tbl ?u')"
    using assms by (simp add: update_user_route_def a s)
  have id': "user_id ?u' = user_id u" by simp
  from commit_lookup [OF row(1) id'] row(2)
  have c: "query_get (commit tbl ?u') uid = Some ?u'"
    and d: "get_user_by_id (commit tbl ?u') uid = None"
    by simp_all
  from a b c d show ?thesis by blast
qed

theorem update_route_sets_is_active_witness:
  "update_user_route sample_library sample_hashpw ''$2b$'' 50 [ann, bob] 2
     [(''is_active'', JBool False)]
     = (Response 200 (Success_data (dump (bob\<lparr>is_active := False, updated_at := 50\<rparr>))
                        ''User updated successfully''),
        [ann, bob\<lparr>is_active := False, updated_at := 50\<rparr>])
   \<and> get_user_by_id [ann, bob\<lparr>is_active := False, updated_at := 50\<rparr>] 2 = None"
proof -
  have g: "get_user_by_id [ann, bob] 2 = Some bob"
    by (simp add: get_user_by_id_def ann_def bob_def)
  have c: "commit [ann, bob] (bob\<lparr>is_active := False, updated_at := 50\<rparr>)
             = [ann, bob\<lparr>is_active := False, updated_at := 50\<rparr>]"
    by (simp add: commit_def ann_def bob_def)
  show ?thesis
    using update_route_sets_is_active [OF g, where lib = sample_library
        and hashpw = sample_hashpw and salt = "''$2b$''" and now = 50]
    unfolding c by simp
qed

section \<open>Validation errors\<close>

lemma map_of_errors_of:
  "map_of (errors_of k r @ rest) k' = (if k' = k \<and> raised r \<noteq> None then raised r else map_of rest k')"
  by (simp add: errors_of_def raised_def split: loaded.splits)

lemma map_of_errors_of_last:
  "map_of (errors_of k r) k' = (if k' = k then raised r else None)"
  by (simp add: errors_of_def raised_def split: loaded.splits)

lemma map_of_unknown_fields:
  "map_of (unknown_fields known data) k
     = (if k \<in> fst ` set data \<and> k \<notin> set known then Some [Unknown_field_default] else None)"
  by (auto simp: unknown_fields_def map_of_map_restrict restrict_map_def map_of_eq_None_iff image_iff
      split: if_splits)


lemma UserUpdateSchema_errors_collects:
  "map_of (UserUpdateSchema_errors lib data) ''name''
     = raised (deserialize None name_field (map_of data ''name''))"
  "map_of (UserUpdateSchema_errors lib data) ''email''
     = raised (deserialize None (email_field lib) (map_of data ''email''))"
  "map_of (UserUpdateSchema_errors lib data) ''age''
     = raised (deserialize_allow_none None (age_field lib) (map_of data ''age''))"
  "map_of (UserUpdateSchema_errors lib data) ''password''
     = raised (deserialize None password_field (map_of data ''password''))"
  "map_of (UserUpdateSchema_errors lib data) ''is_active''
     = raised (deserialize None (is_active_field lib) (map_of data ''is_active''))"
  by (simp_all add: UserUpdateSchema_errors_def map_of_errors_of map_of_unknown_fields
      del: map_of_append)

lemma value_of_email_field:
  "value_of (deserialize req (email_field lib) raw) = Some e
   \<Longrightarrow> raw = Some (JStr e) \<and> Email_validator lib e"
  by (auto simp: value_of_def deserialize_def email_field_def validated_def
      split: option.splits json.splits sum.splits if_splits loaded.splits)



lemma required_value:
  "errors_of k (deserialize (Some m) conv raw) = []
   \<Longrightarrow> \<exists>x. value_of (deserialize (Some m) conv raw) = Some x"
  by (auto simp: errors_of_def value_of_def deserialize_def
      split: option.splits json.splits sum.splits loaded.splits)

lemma UserSchema_no_errors_values:
  assumes "UserSchema_errors lib data = []"
  obtains n e p where
    "value_of (deserialize (Some (Text ''Name is required'')) name_field
                 (map_of data ''name'')) = Some n"
    "value_of (deserialize (Some (Text ''Email is required'')) (email_field lib)
                 (map_of data ''email'')) = Some e"
    "value_of (deserialize (Some (Text ''Password is required'')) password_field
                 (map_of data ''password'')) = Some p"
proof -
  from assms have
    "errors_of ''name'' (deserialize (Some (Text ''Name is required'')) name_field
                           (map_of data ''name'')) = []"
    "errors_of ''email'' (deserialize (Some (Text ''Email is required'')) (email_field lib)
                            (map_of data ''email'')) = []"
    "errors_of ''password'' (deserialize (Some (Text ''Password is required'')) password_field
                               (map_of data ''password'')) = []"
    by (simp_all add: UserSchema_errors_def)
  from this [THEN required_value] that show thesis by blast
qed











section \<open>Validation before creation\<close>

text \<open>
  What the handler of \<open>POST /users\<close> guarantees: a body that \<open>UserSchema\<close> loads has a
  name of 2 to 100 letters and whitespace characters, an address of at most 120
  characters that passes the syntax check and the pattern, a password of 6 to 128
  characters and, when an age is given, an age from 1 to 150. Every other body is
  answered with 400 and leaves the table as it was.
\<close>

lemma value_of_name_field:
  "value_of (deserialize req name_field raw) = Some n
   \<Longrightarrow> raw = Some (JStr n) \<and> 2 \<le> length n \<and> length n \<le> 100
       \<and> list_all (\<lambda>c. is_letter c \<or> is_whitespace c) n"
  by (auto simp: value_of_def deserialize_def name_field_def validated_def validate_Length_def
      validate_Regexp_def name_regex_def
      split: option.splits json.splits sum.splits if_splits loaded.splits)

lemma value_of_email_length:
  "value_of (deserialize req (email_field lib) raw) = Some e \<Longrightarrow> length e \<le> 120"
  by (auto simp: value_of_def deserialize_def email_field_def validated_def validate_Length_def
      split: option.splits json.splits sum.splits if_splits loaded.splits)

lemma value_of_password_field:
  "value_of (deserialize req password_field raw) = Some p
   \<Longrightarrow> raw = Some (JStr p) \<and> 6 \<le> length p \<and> length p \<le> 128"
  by (auto simp: value_of_def deserialize_def password_field_def validated_def validate_Length_def
      split: option.splits json.splits sum.splits if_splits loaded.splits)

lemma value_of_age_field:
  "value_of (deserialize_allow_none req (age_field lib) raw) = Some (Some a)
   \<Longrightarrow> 1 \<le> a \<and> a \<le> 150"
  by (auto simp: value_of_def deserialize_allow_none_def age_field_def validated_def
      validate_Range_def
      split: option.splits json.splits sum.splits if_splits loaded.splits)

lemma UserSchema_load_valid:
  assumes "UserSchema_load lib data = Inr d"
  shows "map_of data ''name'' = Some (JStr (ud_name d))
       \<and> 2 \<le> length (ud_name d) \<and> length (ud_name d) \<le> 100
       \<and> list_all (\<lambda>c. is_letter c \<or> is_whitespace c) (ud_name d)
       \<and> map_of data ''email'' = Some (JStr (ud_email d))
       \<and> Email_validator lib (ud_email d) \<and> length (ud_email d) \<le> 120
       \<and> (ud_email d = [] \<or> email_pattern (ud_email d))
       \<and> (\<exists>p. map_of data ''password'' = Some (JStr p) \<and> ud_password d = code_points p
              \<and> 6 \<le> length p \<and> length p \<le> 128)
       \<and> (case ud_age d of None \<Rightarrow> True | Some a \<Rightarrow> 1 \<le> a \<and> a \<le> 150)"
proof -
  from assms have none: "UserSchema_errors lib data = []"
    by (auto simp: UserSchema_load_def Let_def split: if_splits)
  from UserSchema_no_errors_values [OF none] obtain n e p where
    n: "value_of (deserialize (Some (Text ''Name is required'')) name_field
                    (map_of data ''name'')) = Some n"
    and e: "value_of (deserialize (Some (Text ''Email is required'')) (email_field lib)
                    (map_of data ''email'')) = Some e"
    and p: "value_of (deserialize (Some (Text ''Password is required'')) password_field
                    (map_of data ''password'')) = Some p"
    by blast
  let ?a = "value_of (deserialize_allow_none None (age_field lib) (map_of data ''age''))"
  from assms none n e p
  have post: "validate_email_format (Some e) = []"
    and d: "d = \<lparr>ud_name = n, ud_email = e, ud_password = code_points p,
                 ud_age = (case ?a of None \<Rightarrow> None | Some a \<Rightarrow> a)\<rparr>"
    by (auto simp: UserSchema_load_def Let_def split: if_splits)
  have age: "case ud_age d of None \<Rightarrow> True | Some a \<Rightarrow> 1 \<le> a \<and> a \<le> 150"
    unfolding d using value_of_age_field [of None lib "map_of data ''age''"]
    by (auto split: option.splits)
  from post have "e = [] \<or> email_pattern e"
    by (auto simp: validate_email_format_def split: if_splits)
  with value_of_name_field [OF n] value_of_email_field [OF e] value_of_email_length [OF e]
    value_of_password_field [OF p] age
  show ?thesis unfolding d by simp
qed

lemma create_user_route_rejects:
  "UserSchema_load lib json_data = Inl messages \<Longrightarrow>
   \<exists>b. create_user_route lib hashpw salt now tbl json_data = (Response 400 b, tbl)"
  by (simp add: create_user_route_def)

text \<open>
  C4. The claim is that every creation request whose body breaks the create rules
  is refused before a user is created. The handler \<open>register\<close> loads no schema: for a
  body with a one-letter name, an address without \<open>@\<close>, a one-character password and
  the age 999 it inserts the row and answers 201, while the handler of \<open>POST /users\<close>
  refuses the same body with the errors of all four fields.
\<close>

theorem register_skips_validation:
  "register sample_hashpw ''$2b$'' 60 []
     \<lparr>j_name = Some ''A'', j_email = Some ''nobody'', j_password = Some (code_points ''1''),
      j_age = Some (Some 999)\<rparr>
   = (Inr (Response 201 (User_json
        \<lparr>v_id = 1, v_name = ''A'', v_email = ''nobody'', v_age = Some 999, v_is_active = True,
         v_created_at = 60, v_updated_at = 60\<rparr>)),
      [\<lparr>user_id = 1, name = ''A'', email = ''nobody'', age = Some 999,
        password = code_points ''$2b$1'', created_at = 60, updated_at = 60, is_active = True\<rparr>])
   \<and> create_user_route sample_library sample_hashpw ''$2b$'' 60 []
       [(''name'', JStr ''A''), (''email'', JStr ''nobody''), (''password'', JStr ''1''),
        (''age'', JInt 999)]
   = (Response 400 (Validation_error
        [(''name'', [Length_default]), (''email'', [Invalid_email_default]),
         (''age'', [Range_default]), (''password'', [Length_default])]), [])"
proof -
  have h: "hash_password sample_hashpw ''$2b$'' (code_points ''1'') = Inr (code_points ''$2b$1'')"
    using sample_hash_password [of "''1''"] by simp
  have a: "register sample_hashpw ''$2b$'' 60 []
             \<lparr>j_name = Some ''A'', j_email = Some ''nobody'', j_password = Some (code_points ''1''),
              j_age = Some (Some 999)\<rparr>
           = (Inr (Response 201 (User_json
                \<lparr>v_id = 1, v_name = ''A'', v_email = ''nobody'', v_age = Some 999,
                 v_is_active = True, v_created_at = 60, v_updated_at = 60\<rparr>)),
              [\<lparr>user_id = 1, name = ''A'', email = ''nobody'', age = Some 999,
                password = code_points ''$2b$1'', created_at = 60, updated_at = 60,
                is_active = True\<rparr>])"
    by (simp add: register_def find_by_email_def h save_def User_def fresh_id_def dump_def
        Let_def)
  have b: "create_user_route sample_library sample_hashpw ''$2b$'' 60 []
             [(''name'', JStr ''A''), (''email'', JStr ''nobody''), (''password'', JStr ''1''),
              (''age'', JInt 999)]
           = (Response 400 (Validation_error
                [(''name'', [Length_default]), (''email'', [Invalid_email_default]),
                 (''age'', [Range_default]), (''password'', [Length_default])]), [])"
    by code_simp
  from a b show ?thesis by (rule conjI)
qed

end
